theory Spec2Isabelle
  imports Main "HOL-Library.Multiset"
begin

section \<open>Data model of the chat hook (src/hooks/useChat.tsx)\<close>

text \<open>
  The exported interfaces of the hook, field for field. Strings are \<open>string\<close>,
  arrays are lists, the \<open>Chats\<close> index signature is a map from chat ids to chats.
  \<open>timestamp\<close> is a send time in whole milliseconds and is modelled as \<open>int\<close>.
\<close>

record ChatUser =
  userId :: string
  userType :: string
  preferredName :: string
  firstName :: string
  lastName :: string
  profilePictureUrl :: string

record ChatMessage =
  messageId :: string
  chatId :: string
  sender :: ChatUser
  content :: string
  timestamp :: int
  isReceived :: bool
  isRead :: bool
  isDeleted :: bool

record Chat =
  chatId :: string
  participants :: "ChatUser list"
  messages :: "ChatMessage list"

type_synonym Chats = "string \<rightharpoonup> Chat"

record ChatSummary =
  chatId :: string
  participants :: "ChatUser list"
  latestMessage :: ChatMessage

record EmitRegisterUserParams =
  userId :: string
  userType :: string
  preferredName :: string
  firstName :: string
  lastName :: string
  profilePictureUrl :: string

record EmitListChatsParams =
  userId :: string

record EmitListMessagesParams =
  roomId :: string
  userId :: string

record EmitSendMessageParams =
  roomId :: string
  sender :: ChatUser
  message :: string
  timestamp :: int

record EmitReadMessagesParams =
  chatId :: string
  unreadMessages :: "ChatMessage list"

text \<open>The object literal sent with \<open>readMessages\<close>: a room id and message ids.\<close>

record ReadMessagesPayload =
  roomId :: string
  unreadMessages :: "string list"

text \<open>The destructured argument of \<open>onMessagesList\<close>.\<close>

record MessagesListResponse =
  chatId :: string
  participants :: "ChatUser list"
  messagesList :: "ChatMessage list"

text \<open>
  The teacher context (\<open>useTeacherContext\<close>) is imported by the hook; of its \<open>info\<close>
  object the hook reads the five fields below, each of which may be undefined.
  \<open>getInfo\<close> is the context's synchronous lookup of the stored info, which may
  return nothing; it is taken as the value that a call returns.
\<close>

record TeacherInfo =
  teacherID :: "string option"
  preferredName :: "string option"
  firstName :: "string option"
  lastName :: "string option"
  profilePictureURL :: "string option"

record TeacherContext =
  info :: TeacherInfo
  getInfo :: "TeacherInfo option"

text \<open>
  An outbound event is the event name together with its payload. The payload of
  \<open>receiveMessage\<close> is \<open>incomingChat.messages[0]\<close>, which is undefined for an
  empty array: it is an option.
\<close>

datatype event =
  RegisterUser EmitRegisterUserParams
| ListChatRooms EmitListChatsParams
| ListMessages EmitListMessagesParams
| SendMessage EmitSendMessageParams
| ReadMessages ReadMessagesPayload
| ReceiveMessage "ChatMessage option"

datatype console_entry =
  ConsoleLog "string list"
| ConsoleError "string list"

text \<open>
  The socket the effect creates: the address given to \<open>io\<close> and the names of
  the events subscribed with \<open>on\<close>, in order.
\<close>

record Socket =
  url :: string
  listeners :: "string list"

text \<open>
  The state of one hook instance: the socket reference, the nine \<open>useState\<close>
  cells, and the two outputs the functions write to: the events handed to
  \<open>emit\<close> and the lines written to the console.
\<close>

record useChatState =
  socketRef :: "Socket option"
  isRegistering :: bool
  isRegistered :: bool
  chats :: Chats
  chatsList :: "Chat list"
  chatSummaries :: "ChatSummary list"
  areChatsLoading :: bool
  areChatsLoaded :: bool
  chatMessages :: "ChatMessage list"
  areMessagesLoading :: bool
  emitted :: "event list"
  console :: "console_entry list"

definition initialState :: useChatState where
  "initialState =
     \<lparr>socketRef = None, isRegistering = False, isRegistered = False,
      chats = Map.empty, chatsList = [], chatSummaries = [],
      areChatsLoading = False, areChatsLoaded = False,
      chatMessages = [], areMessagesLoading = False,
      emitted = [], console = []\<rparr>"

section \<open>Primitives\<close>

text \<open>\<open>socketRef.current?.emit(name, payload)\<close>: nothing happens without a socket.\<close>

definition socket_emit :: "event \<Rightarrow> useChatState \<Rightarrow> useChatState" where
  "socket_emit e s =
     (case socketRef s of
        None \<Rightarrow> s
      | Some _ \<Rightarrow> s\<lparr>emitted := emitted s @ [e]\<rparr>)"

definition console_log :: "string list \<Rightarrow> useChatState \<Rightarrow> useChatState" where
  "console_log args s = s\<lparr>console := console s @ [ConsoleLog args]\<rparr>"

definition console_error :: "string list \<Rightarrow> useChatState \<Rightarrow> useChatState" where
  "console_error args s = s\<lparr>console := console s @ [ConsoleError args]\<rparr>"

text \<open>Truthiness of a \<open>string | undefined\<close>: undefined and the empty string are falsy.\<close>

definition truthy :: "string option \<Rightarrow> bool" where
  "truthy v = (case v of None \<Rightarrow> False | Some str \<Rightarrow> str \<noteq> [])"

text \<open>\<open>xs[0]\<close> of an array: undefined when the array is empty.\<close>

definition index0 :: "'a list \<Rightarrow> 'a option" where
  "index0 xs = (case xs of [] \<Rightarrow> None | x # _ \<Rightarrow> Some x)"

text \<open>
  \<open>Array.prototype.toSorted(compareFn)\<close> returns a sorted copy and is a stable
  sort: an element goes before another when the comparator is negative, after it
  when positive, and elements that compare as equal keep their order. It is
  modelled by insertion from the right, each element entering before the first
  element that it does not have to follow.
\<close>

fun insertSorted :: "('a \<Rightarrow> 'a \<Rightarrow> int) \<Rightarrow> 'a \<Rightarrow> 'a list \<Rightarrow> 'a list" where
  "insertSorted cmp x [] = [x]"
| "insertSorted cmp x (y # ys) =
     (if cmp x y \<le> 0 then x # y # ys else y # insertSorted cmp x ys)"

definition toSorted :: "('a \<Rightarrow> 'a \<Rightarrow> int) \<Rightarrow> 'a list \<Rightarrow> 'a list" where
  "toSorted cmp xs = foldr (insertSorted cmp) xs []"

section \<open>User registration\<close>

definition emitListChats :: "EmitListChatsParams \<Rightarrow> useChatState \<Rightarrow> useChatState" where
  "emitListChats params s =
     socket_emit (ListChatRooms params)
       (s\<lparr>areChatsLoading := True, areChatsLoaded := False\<rparr>)"

definition emitRegisterUser :: "EmitRegisterUserParams \<Rightarrow> useChatState \<Rightarrow> useChatState" where
  "emitRegisterUser params s =
     socket_emit (RegisterUser params) (s\<lparr>isRegistering := True\<rparr>)"

definition onUserRegistered :: "string \<Rightarrow> useChatState \<Rightarrow> useChatState" where
  "onUserRegistered uid s =
     emitListChats \<lparr>EmitListChatsParams.userId = uid\<rparr>
       (s\<lparr>isRegistering := False, isRegistered := True\<rparr>)"

definition onRegisterUserError :: "string \<Rightarrow> useChatState \<Rightarrow> useChatState" where
  "onRegisterUserError err s = console_error [''Error registering user:'', err] s"

section \<open>Chats list\<close>

definition compareChats :: "ChatSummary \<Rightarrow> ChatSummary \<Rightarrow> int" where
  "compareChats a b =
     ChatMessage.timestamp (latestMessage b) - ChatMessage.timestamp (latestMessage a)"

definition onChatsList :: "ChatSummary list \<Rightarrow> useChatState \<Rightarrow> useChatState" where
  "onChatsList chatsList_in s =
     (let sortedChats = toSorted compareChats chatsList_in
      in s\<lparr>chatSummaries := sortedChats, areChatsLoading := False, areChatsLoaded := True\<rparr>)"

definition onListChatsError :: "string \<Rightarrow> useChatState \<Rightarrow> useChatState" where
  "onListChatsError err s = console_error [''Error listing chats:'', err] s"

section \<open>Messages list\<close>

definition emitListMessages :: "EmitListMessagesParams \<Rightarrow> useChatState \<Rightarrow> useChatState" where
  "emitListMessages params s =
     socket_emit (ListMessages params) (s\<lparr>areMessagesLoading := True\<rparr>)"

text \<open>
  \<open>onMessagesList\<close> and \<open>onNewMessage\<close> read the variable \<open>chats\<close>. A function of
  the hook is created anew at every render and sees the \<open>chats\<close> of that render,
  so the value it reads is an argument here, \<open>chats_r\<close>; what it writes with
  \<open>setChats\<close> goes to the state. The effect subscribes the handlers once, in the
  run that creates the socket, which follows the first render: the functions
  that the socket calls are those of the first render, whose \<open>chats\<close> is the
  initial value of the cell.
\<close>

definition firstRenderChats :: Chats where
  "firstRenderChats = chats initialState"

definition onMessagesList ::
  "Chats \<Rightarrow> MessagesListResponse \<Rightarrow> useChatState \<Rightarrow> useChatState" where
  "onMessagesList chats_r r s =
     (let entry = \<lparr>Chat.chatId = MessagesListResponse.chatId r,
                   participants = MessagesListResponse.participants r,
                   messages = messagesList r\<rparr>;
          s1 = (if chats_r (MessagesListResponse.chatId r) = None
                then s\<lparr>chats := chats_r(MessagesListResponse.chatId r \<mapsto> entry)\<rparr>
                else (let newChats = chats_r(MessagesListResponse.chatId r \<mapsto> entry)
                      in s\<lparr>chats := newChats\<rparr>))
      in s1\<lparr>chatMessages := messagesList r, areMessagesLoading := False\<rparr>)"

section \<open>Message sending and receiving\<close>

definition emitSendMessage :: "EmitSendMessageParams \<Rightarrow> useChatState \<Rightarrow> useChatState" where
  "emitSendMessage params s = socket_emit (SendMessage params) s"

text \<open>The \<open>forEach\<close> of \<open>emitReadMessages\<close>, pushing the ids of the messages to report.\<close>

fun collectUnread :: "string \<Rightarrow> ChatMessage list \<Rightarrow> string list \<Rightarrow> string list" where
  "collectUnread teacherId [] unreadMessageIds = unreadMessageIds"
| "collectUnread teacherId (msg # rest) unreadMessageIds =
     (if ChatUser.userId (ChatMessage.sender msg) \<noteq> teacherId \<and> \<not> isRead msg
      then collectUnread teacherId rest (unreadMessageIds @ [messageId msg])
      else collectUnread teacherId rest unreadMessageIds)"

text \<open>
  The tail of \<open>emitReadMessages\<close>, once a truthy teacher id is at hand; the
  guard on the socket logs and returns.
\<close>

definition sendReadMessages ::
  "string \<Rightarrow> EmitReadMessagesParams \<Rightarrow> useChatState \<Rightarrow> useChatState" where
  "sendReadMessages teacherId params s =
     (let unreadMessageIds =
            collectUnread teacherId (EmitReadMessagesParams.unreadMessages params) []
      in if socketRef s = None then console_error [''Socket not found''] s
         else socket_emit
                (ReadMessages \<lparr>ReadMessagesPayload.roomId = EmitReadMessagesParams.chatId params,
                               unreadMessages = unreadMessageIds\<rparr>) s)"

definition emitReadMessages ::
  "TeacherContext \<Rightarrow> EmitReadMessagesParams \<Rightarrow> useChatState \<Rightarrow> useChatState" where
  "emitReadMessages ctx params s =
     (if truthy (teacherID (info ctx))
      then sendReadMessages (the (teacherID (info ctx))) params s
      else
        (let s1 = console_log [''No teacherID...''] s;
             s2 = console_log [''Getting stored info...''] s1;
             teacherId = (case getInfo ctx of None \<Rightarrow> None | Some storedInfo \<Rightarrow> teacherID storedInfo)
         in if \<not> truthy teacherId
            then console_error [''Sorry! No teacherID! Exiting...''] s2
            else sendReadMessages (the teacherId) params s2))"

definition onNewMessage :: "Chats \<Rightarrow> Chat \<Rightarrow> useChatState \<Rightarrow> useChatState" where
  "onNewMessage chats_r incomingChat s =
     (let updatedChats = chats_r(Chat.chatId incomingChat \<mapsto> incomingChat)
      in socket_emit (ReceiveMessage (index0 (messages incomingChat)))
           (s\<lparr>chats := updatedChats, chatMessages := messages incomingChat\<rparr>))"

section \<open>The effect of the hook\<close>

definition newSocket :: Socket where
  "newSocket =
     \<lparr>url = ''http://localhost:11114'',
      listeners = [''userRegistered'', ''registerUserError'', ''chatsList'',
                   ''listChatsError'', ''messagesList'', ''messageReceived'',
                   ''messageRead'', ''newMessage'']\<rparr>"

definition identityComplete :: "TeacherInfo \<Rightarrow> bool" where
  "identityComplete i \<longleftrightarrow>
     truthy (teacherID i) \<and> truthy (TeacherInfo.preferredName i) \<and>
     truthy (TeacherInfo.firstName i) \<and> truthy (TeacherInfo.lastName i)"

definition registerParams :: "TeacherInfo \<Rightarrow> EmitRegisterUserParams" where
  "registerParams i =
     \<lparr>EmitRegisterUserParams.userId = the (teacherID i),
      userType = ''teacher'',
      preferredName = the (TeacherInfo.preferredName i),
      firstName = the (TeacherInfo.firstName i),
      lastName = the (TeacherInfo.lastName i),
      profilePictureUrl =
        (if truthy (profilePictureURL i) then the (profilePictureURL i) else [])\<rparr>"

definition useChatEffect :: "TeacherInfo \<Rightarrow> useChatState \<Rightarrow> useChatState" where
  "useChatEffect i s =
     (let s1 = (if socketRef s = None then s\<lparr>socketRef := Some newSocket\<rparr> else s);
          s2 = (if socketRef s1 \<noteq> None \<and> \<not> isRegistered s \<and> identityComplete i
                then emitRegisterUser (registerParams i) s1 else s1);
          s3 = (if socketRef s2 \<noteq> None \<and> isRegistered s \<and> truthy (teacherID i)
                then emitListChats \<lparr>EmitListChatsParams.userId = the (teacherID i)\<rparr> s2
                else s2)
      in s3)"

text \<open>
  The dependency array of the effect, as read during a render. React runs the
  effect after the first render and after every later render in which one of
  these values differs from the render before.
\<close>

type_synonym effectDeps =
  "string option \<times> string option \<times> string option \<times> string option \<times> string option \<times>
   Socket option \<times> bool"

definition depsOf :: "TeacherInfo \<Rightarrow> useChatState \<Rightarrow> effectDeps" where
  "depsOf i s =
     (teacherID i, TeacherInfo.preferredName i, TeacherInfo.firstName i,
      TeacherInfo.lastName i, profilePictureURL i, socketRef s, isRegistered s)"

text \<open>
  A run of renders, one for each successive value of the identity: the effect
  runs when the dependencies changed. \<open>prev\<close> is the dependency array of the
  render before, \<open>None\<close> before the first render.
\<close>

fun renders :: "effectDeps option \<Rightarrow> TeacherInfo list \<Rightarrow> useChatState \<Rightarrow> useChatState" where
  "renders prev [] s = s"
| "renders prev (i # rest) s =
     (if prev = Some (depsOf i s) then renders prev rest s
      else renders (Some (depsOf i s)) rest (useChatEffect i s))"

definition isRegisterUser :: "event \<Rightarrow> bool" where
  "isRegisterUser e = (case e of RegisterUser _ \<Rightarrow> True | _ \<Rightarrow> False)"

definition summaryTime :: "ChatSummary \<Rightarrow> int" where
  "summaryTime c = ChatMessage.timestamp (latestMessage c)"

section \<open>Sample values\<close>

text \<open>Concrete users, messages, chats and identities, for the instances below.\<close>

definition sampleUser :: "string \<Rightarrow> ChatUser" where
  "sampleUser uid =
     \<lparr>ChatUser.userId = uid, userType = ''student'', preferredName = ''P'',
      firstName = ''F'', lastName = ''L'', profilePictureUrl = []\<rparr>"

definition sampleMessage :: "string \<Rightarrow> string \<Rightarrow> int \<Rightarrow> bool \<Rightarrow> ChatMessage" where
  "sampleMessage mid uid t r =
     \<lparr>messageId = mid, chatId = ''room'', sender = sampleUser uid, content = ''hi'',
      timestamp = t, isReceived = True, isRead = r, isDeleted = False\<rparr>"

definition sampleSummary :: "string \<Rightarrow> int \<Rightarrow> ChatSummary" where
  "sampleSummary cid t =
     \<lparr>ChatSummary.chatId = cid, participants = [],
      latestMessage = sampleMessage ''m'' ''t2'' t False\<rparr>"

definition sampleChat :: "ChatMessage list \<Rightarrow> Chat" where
  "sampleChat ms = \<lparr>Chat.chatId = ''room'', participants = [], messages = ms\<rparr>"

definition sampleResponse :: "ChatMessage list \<Rightarrow> MessagesListResponse" where
  "sampleResponse ms =
     \<lparr>MessagesListResponse.chatId = ''room'', participants = [], messagesList = ms\<rparr>"

definition sampleInfo :: "string option \<Rightarrow> string option \<Rightarrow> TeacherInfo" where
  "sampleInfo tid pic =
     \<lparr>teacherID = tid, preferredName = Some ''A'', firstName = Some ''B'',
      lastName = Some ''C'', profilePictureURL = pic\<rparr>"

text \<open>The state once the effect has created the socket and nothing else has happened.\<close>

definition connected :: useChatState where
  "connected = initialState\<lparr>socketRef := Some newSocket\<rparr>"

section \<open>Emission with and without a socket\<close>

lemma socket_emit_Some:
  "socketRef s \<noteq> None \<Longrightarrow> socket_emit e s = s\<lparr>emitted := emitted s @ [e]\<rparr>"
  by (auto simp: socket_emit_def)

lemma socket_emit_None: "socketRef s = None \<Longrightarrow> socket_emit e s = s"
  by (simp add: socket_emit_def)

lemma connected_facts:
  "socketRef connected \<noteq> None" "emitted connected = []" "console connected = []"
  "\<not> isRegistered connected"
  by (simp_all add: connected_def initialState_def)

section \<open>The chat directory is sorted\<close>

text \<open>
  With the comparator of \<open>onChatsList\<close>, the sort is the insertion sort of the
  library on the negated timestamp.
\<close>

lemma insertSorted_compareChats:
  "insertSorted compareChats x ys = insort_key (\<lambda>c. - summaryTime c) x ys"
  by (induction ys) (simp_all add: compareChats_def summaryTime_def)

lemma toSorted_compareChats:
  "toSorted compareChats xs = sort_key (\<lambda>c. - summaryTime c) xs"
  by (induction xs) (simp_all add: toSorted_def insertSorted_compareChats)

lemma toSorted_descending:
  "sorted_wrt (\<lambda>a b. summaryTime b \<le> summaryTime a) (toSorted compareChats xs)"
proof -
  have "sorted (map (\<lambda>c. - summaryTime c) (toSorted compareChats xs))"
    by (simp add: toSorted_compareChats)
  then show ?thesis
    by (simp add: sorted_map)
qed

lemma toSorted_stable:
  "filter (\<lambda>c. summaryTime c = t) (toSorted compareChats xs)
     = filter (\<lambda>c. summaryTime c = t) xs"
proof -
  have "filter (\<lambda>c. - summaryTime c = - t) (sort_key (\<lambda>c. - summaryTime c) xs)
        = filter (\<lambda>c. - summaryTime c = - t) xs"
    by (rule sort_key_stable)
  then show ?thesis by (simp add: toSorted_compareChats)
qed

lemma toSorted_mset: "mset (toSorted compareChats xs) = mset xs"
  by (simp add: toSorted_compareChats)

text \<open>
  Claim C1. For every list of summaries received as a \<open>chatsList\<close> response, the
  stored summary list after \<open>onChatsList\<close> is in descending order of
  \<open>latestMessage.timestamp\<close>, holds the same summaries as the input, and lists
  the summaries of each timestamp in the order the input had them (the sort is
  stable).
\<close>

theorem onChatsList_sorted_stable:
  "sorted_wrt (\<lambda>a b. summaryTime b \<le> summaryTime a) (chatSummaries (onChatsList l s))
   \<and> mset (chatSummaries (onChatsList l s)) = mset l
   \<and> (\<forall>t. filter (\<lambda>c. summaryTime c = t) (chatSummaries (onChatsList l s))
           = filter (\<lambda>c. summaryTime c = t) l)"
  by (simp add: onChatsList_def toSorted_descending toSorted_stable toSorted_mset)

text \<open>Four summaries with two pairs of equal timestamps: each pair keeps its order.\<close>

theorem onChatsList_sorted_stable_witness:
  "chatSummaries (onChatsList [sampleSummary ''a'' 1, sampleSummary ''b'' 5,
                               sampleSummary ''c'' 1, sampleSummary ''d'' 5] initialState)
     = [sampleSummary ''b'' 5, sampleSummary ''d'' 5, sampleSummary ''a'' 1, sampleSummary ''c'' 1]
   \<and> sorted_wrt (\<lambda>a b. summaryTime b \<le> summaryTime a)
       (chatSummaries (onChatsList [sampleSummary ''a'' 1, sampleSummary ''b'' 5,
                                    sampleSummary ''c'' 1, sampleSummary ''d'' 5] initialState))"
proof -
  have "chatSummaries (onChatsList [sampleSummary ''a'' 1, sampleSummary ''b'' 5,
                               sampleSummary ''c'' 1, sampleSummary ''d'' 5] initialState)
     = [sampleSummary ''b'' 5, sampleSummary ''d'' 5, sampleSummary ''a'' 1, sampleSummary ''c'' 1]"
    by (simp add: onChatsList_def toSorted_def compareChats_def sampleSummary_def
        sampleMessage_def)
  then show ?thesis
    using onChatsList_sorted_stable [of "[sampleSummary ''a'' 1, sampleSummary ''b'' 5,
                                    sampleSummary ''c'' 1, sampleSummary ''d'' 5]" initialState]
    by simp
qed

section \<open>Pushed conversations\<close>

lemma onNewMessage_connected:
  "socketRef s \<noteq> None \<Longrightarrow>
   onNewMessage cl c s =
     s\<lparr>chats := cl(Chat.chatId c \<mapsto> c), chatMessages := messages c,
       emitted := emitted s @ [ReceiveMessage (index0 (messages c))]\<rparr>"
  by (simp add: onNewMessage_def socket_emit_Some)

text \<open>
  The handler that the socket calls builds the new store from the \<open>chats\<close> of the
  first render: after a push the store holds the pushed conversation and nothing
  else, whatever it held before.
\<close>

lemma onNewMessage_subscribed_store:
  "chats (onNewMessage firstRenderChats c s) = [Chat.chatId c \<mapsto> c]"
  by (simp add: onNewMessage_def Let_def socket_emit_def firstRenderChats_def initialState_def
      split: option.splits)




text \<open>
  Claim C10. A pushed conversation may carry no messages. Element 0 of its
  message list is then undefined, and the handler still emits the
  \<open>receiveMessage\<close> event, with that undefined payload, and sets the displayed
  message list to the empty list.
\<close>

theorem onNewMessage_empty_push:
  assumes "socketRef s \<noteq> None" and "messages c = []"
  shows "index0 (messages c) = None
    \<and> emitted (onNewMessage cl c s) = emitted s @ [ReceiveMessage None]
    \<and> chatMessages (onNewMessage cl c s) = []"
  using assms by (simp add: onNewMessage_connected index0_def)

theorem onNewMessage_empty_push_witness:
  "messages (sampleChat []) = []
   \<and> index0 (messages (sampleChat [])) = None
   \<and> emitted (onNewMessage firstRenderChats (sampleChat []) connected) = [ReceiveMessage None]
   \<and> chatMessages (onNewMessage firstRenderChats (sampleChat []) connected) = []"
proof -
  have m: "messages (sampleChat []) = []" by (simp add: sampleChat_def)
  show ?thesis
    using onNewMessage_empty_push [OF connected_facts(1) m, where cl = firstRenderChats] m
      connected_facts(2)
    by simp
qed

section \<open>Registration events\<close>

lemma onRegisterUserError_only_logs:
  "onRegisterUserError err s =
     s\<lparr>console := console s @ [ConsoleError [''Error registering user:'', err]]\<rparr>"
  by (simp add: onRegisterUserError_def console_error_def)

text \<open>
  Claim C4. A registration error arriving while a registration is in flight
  should clear \<open>isRegistering\<close>. The handler only writes to the console: after
  \<open>emitRegisterUser\<close> on a connected hook has set the flag, \<open>onRegisterUserError\<close>
  leaves it set (and \<open>isRegistered\<close> false).
\<close>

theorem onRegisterUserError_leaves_in_flight:
  "isRegistering (onRegisterUserError ''registration failed''
      (emitRegisterUser (registerParams (sampleInfo (Some ''t1'') None)) connected)) = True
   \<and> isRegistered (onRegisterUserError ''registration failed''
      (emitRegisterUser (registerParams (sampleInfo (Some ''t1'') None)) connected)) = False"
  by (simp add: onRegisterUserError_only_logs emitRegisterUser_def socket_emit_def connected_def
      initialState_def)

text \<open>
  Claim C5. For every \<open>userRegistered\<close> event carrying a user id, arriving on the
  socket, the handler clears \<open>isRegistering\<close>, sets \<open>isRegistered\<close>, and emits
  exactly one event: \<open>listChatRooms\<close> for that user id.
\<close>

theorem onUserRegistered_requests_chats:
  assumes "socketRef s \<noteq> None"
  shows "isRegistering (onUserRegistered uid s) = False
    \<and> isRegistered (onUserRegistered uid s) = True
    \<and> emitted (onUserRegistered uid s)
        = emitted s @ [ListChatRooms \<lparr>EmitListChatsParams.userId = uid\<rparr>]"
  using assms by (simp add: onUserRegistered_def emitListChats_def socket_emit_Some)

theorem onUserRegistered_requests_chats_witness:
  "isRegistering (onUserRegistered ''t1'' (connected\<lparr>isRegistering := True\<rparr>)) = False
   \<and> isRegistered (onUserRegistered ''t1'' (connected\<lparr>isRegistering := True\<rparr>)) = True
   \<and> emitted (onUserRegistered ''t1'' (connected\<lparr>isRegistering := True\<rparr>))
       = [ListChatRooms \<lparr>EmitListChatsParams.userId = ''t1''\<rparr>]"
proof -
  have c: "socketRef (connected\<lparr>isRegistering := True\<rparr>) \<noteq> None"
    by (simp add: connected_facts)
  have e: "emitted (connected\<lparr>isRegistering := True\<rparr>) = []"
    by (simp add: connected_facts)
  show ?thesis
    using onUserRegistered_requests_chats [OF c, of "''t1''"] e by simp
qed

section \<open>The registration effect\<close>

lemma useChatEffect_registered:
  assumes "isRegistered s"
  shows "isRegistered (useChatEffect i s)
    \<and> filter isRegisterUser (emitted (useChatEffect i s)) = filter isRegisterUser (emitted s)"
  using assms
  by (simp add: useChatEffect_def Let_def emitListChats_def socket_emit_def isRegisterUser_def
      split: option.splits)

lemma renders_registered:
  "isRegistered s \<Longrightarrow>
   filter isRegisterUser (emitted (renders prev infos s)) = filter isRegisterUser (emitted s)"
proof (induction infos arbitrary: prev s)
  case Nil
  then show ?case by simp
next
  case (Cons i rest)
  show ?case
  proof (cases "prev = Some (depsOf i s)")
    case True
    then show ?thesis using Cons by simp
  next
    case False
    have "filter isRegisterUser (emitted (renders (Some (depsOf i s)) rest (useChatEffect i s)))
          = filter isRegisterUser (emitted (useChatEffect i s))"
      using Cons.IH [of "useChatEffect i s"] useChatEffect_registered [OF Cons.prems] by blast
    then show ?thesis
      using False useChatEffect_registered [OF Cons.prems, of i] by simp
  qed
qed

lemma useChatEffect_unregistered:
  assumes "\<not> isRegistered s"
  shows "emitted (useChatEffect i s) =
     (if identityComplete i then emitted s @ [RegisterUser (registerParams i)] else emitted s)"
  using assms
  by (simp add: useChatEffect_def Let_def emitRegisterUser_def socket_emit_def
      split: option.splits)

text \<open>
  Claim C6, as the code has it. Once \<open>isRegistered\<close> is true, no \<open>registerUser\<close>
  is emitted by any later run of renders, whatever identities they bring. While
  \<open>isRegistered\<close> is false, every run of the effect emits exactly one
  \<open>registerUser\<close> when the identity is complete and nothing when it is not; the
  effect runs at every change of a dependency, so the number of emissions is the
  number of runs with a complete identity, not the number of times the identity
  became complete.
\<close>

theorem registration_effect_guard:
  "(isRegistered s \<longrightarrow>
      filter isRegisterUser (emitted (renders prev infos s)) = filter isRegisterUser (emitted s))
   \<and> (\<not> isRegistered s \<and> identityComplete i \<longrightarrow>
        emitted (useChatEffect i s) = emitted s @ [RegisterUser (registerParams i)])
   \<and> (\<not> isRegistered s \<and> \<not> identityComplete i \<longrightarrow>
        emitted (useChatEffect i s) = emitted s)"
  by (simp add: renders_registered useChatEffect_unregistered)

theorem registration_effect_guard_witness:
  "filter isRegisterUser
     (emitted (renders None [sampleInfo (Some ''t1'') None, sampleInfo (Some ''t1'') (Some ''pic'')]
        (connected\<lparr>isRegistered := True\<rparr>))) = []
   \<and> emitted (useChatEffect (sampleInfo (Some ''t1'') None) connected)
       = [RegisterUser (registerParams (sampleInfo (Some ''t1'') None))]
   \<and> emitted (useChatEffect (sampleInfo None None) connected) = []"
proof -
  have r: "isRegistered (connected\<lparr>isRegistered := True\<rparr>)" by simp
  have e: "emitted (connected\<lparr>isRegistered := True\<rparr>) = []"
    by (simp add: connected_facts)
  have c: "identityComplete (sampleInfo (Some ''t1'') None)"
    "\<not> identityComplete (sampleInfo None None)"
    by (simp_all add: identityComplete_def sampleInfo_def truthy_def)
  show ?thesis
    using registration_effect_guard [of "connected\<lparr>isRegistered := True\<rparr>" None
        "[sampleInfo (Some ''t1'') None, sampleInfo (Some ''t1'') (Some ''pic'')]"
        "sampleInfo (Some ''t1'') None"]
      registration_effect_guard [of connected None "[]" "sampleInfo (Some ''t1'') None"]
      registration_effect_guard [of connected None "[]" "sampleInfo None None"]
    by (simp add: r e c connected_facts)
qed

text \<open>
  Claim C6 as stated fails. The hook mounts with an incomplete identity, the
  identity becomes complete, and then only the profile picture arrives, the
  user still unregistered: the identity became complete once, and
  \<open>registerUser\<close> is emitted twice.
\<close>

theorem registration_repeats_counterexample:
  "\<not> identityComplete (sampleInfo None None)
   \<and> identityComplete (sampleInfo (Some ''t1'') None)
   \<and> identityComplete (sampleInfo (Some ''t1'') (Some ''pic''))
   \<and> filter isRegisterUser
       (emitted (renders None
          [sampleInfo None None, sampleInfo (Some ''t1'') None,
           sampleInfo (Some ''t1'') (Some ''pic'')] initialState))
     = [RegisterUser (registerParams (sampleInfo (Some ''t1'') None)),
        RegisterUser (registerParams (sampleInfo (Some ''t1'') (Some ''pic'')))]"
  by (simp add: identityComplete_def sampleInfo_def truthy_def depsOf_def useChatEffect_def
      Let_def initialState_def emitRegisterUser_def socket_emit_def isRegisterUser_def)

section \<open>Fetched messages\<close>

lemma onMessagesList_eq:
  "onMessagesList cl r s =
     s\<lparr>chats := cl(MessagesListResponse.chatId r \<mapsto>
          \<lparr>Chat.chatId = MessagesListResponse.chatId r,
           participants = MessagesListResponse.participants r,
           messages = messagesList r\<rparr>),
       chatMessages := messagesList r, areMessagesLoading := False\<rparr>"
  by (simp add: onMessagesList_def Let_def)

text \<open>
  As for pushes, the handler that the socket calls starts from the \<open>chats\<close> of
  the first render: after a response the store holds the fetched conversation
  and nothing else.
\<close>

lemma onMessagesList_subscribed_store:
  "chats (onMessagesList firstRenderChats r s)
     = [MessagesListResponse.chatId r \<mapsto>
          \<lparr>Chat.chatId = MessagesListResponse.chatId r,
           participants = MessagesListResponse.participants r,
           messages = messagesList r\<rparr>]"
  by (simp add: onMessagesList_eq firstRenderChats_def initialState_def)

text \<open>
  Claim C7. Applying the same \<open>messagesList\<close> response twice in succession leaves
  the same state as applying it once; in particular the conversation stored under
  its chat id is the same, namely the one built from the response.
\<close>

theorem onMessagesList_idempotent:
  "onMessagesList cl r (onMessagesList cl r s) = onMessagesList cl r s
   \<and> chats (onMessagesList cl r (onMessagesList cl r s)) (MessagesListResponse.chatId r)
       = chats (onMessagesList cl r s) (MessagesListResponse.chatId r)
   \<and> chats (onMessagesList cl r s) (MessagesListResponse.chatId r)
       = Some \<lparr>Chat.chatId = MessagesListResponse.chatId r,
               participants = MessagesListResponse.participants r,
               messages = messagesList r\<rparr>"
  by (simp add: onMessagesList_eq)

theorem onMessagesList_idempotent_witness:
  "chats (onMessagesList firstRenderChats (sampleResponse [sampleMessage ''m1'' ''t2'' 1 False])
       (onMessagesList firstRenderChats (sampleResponse [sampleMessage ''m1'' ''t2'' 1 False])
          connected)) ''room''
     = Some (sampleChat [sampleMessage ''m1'' ''t2'' 1 False])
   \<and> chats (onMessagesList firstRenderChats
              (sampleResponse [sampleMessage ''m1'' ''t2'' 1 False]) connected) ''room''
     = Some (sampleChat [sampleMessage ''m1'' ''t2'' 1 False])"
  using onMessagesList_idempotent [where cl = firstRenderChats
      and r = "sampleResponse [sampleMessage ''m1'' ''t2'' 1 False]" and s = connected]
  by (simp add: sampleResponse_def sampleChat_def)

section \<open>Read receipts\<close>

lemma collectUnread_filter:
  "collectUnread tid ms acc =
     acc @ map messageId
       (filter (\<lambda>m. ChatUser.userId (ChatMessage.sender m) \<noteq> tid \<and> \<not> isRead m) ms)"
  by (induction ms arbitrary: acc) simp_all

lemma sendReadMessages_connected:
  "socketRef s \<noteq> None \<Longrightarrow>
   sendReadMessages tid p s =
     s\<lparr>emitted := emitted s @
        [ReadMessages \<lparr>ReadMessagesPayload.roomId = EmitReadMessagesParams.chatId p,
           unreadMessages = map messageId
             (filter (\<lambda>m. ChatUser.userId (ChatMessage.sender m) \<noteq> tid \<and> \<not> isRead m)
                (EmitReadMessagesParams.unreadMessages p))\<rparr>]\<rparr>"
  by (auto simp: sendReadMessages_def socket_emit_Some collectUnread_filter)

text \<open>
  Claim C3. For every call of \<open>emitReadMessages\<close> on a connected hook with a
  resolvable teacher id (a non-empty id in the live info, or else a non-empty id
  in the stored info), exactly one event is emitted: a \<open>readMessages\<close> whose room
  id is the given chat id and whose ids are the message ids of exactly those
  candidates that were sent by someone else and are not read, in candidate order.
\<close>

theorem emitReadMessages_filters:
  assumes sock: "socketRef s \<noteq> None"
    and res: "(teacherID (info ctx) = Some tid \<and> tid \<noteq> [])
        \<or> (\<not> truthy (teacherID (info ctx)) \<and> getInfo ctx = Some st
            \<and> teacherID st = Some tid \<and> tid \<noteq> [])"
  shows "emitted (emitReadMessages ctx p s) =
     emitted s @
       [ReadMessages \<lparr>ReadMessagesPayload.roomId = EmitReadMessagesParams.chatId p,
          unreadMessages = map messageId
            (filter (\<lambda>m. ChatUser.userId (ChatMessage.sender m) \<noteq> tid \<and> \<not> isRead m)
               (EmitReadMessagesParams.unreadMessages p))\<rparr>]"
  using res
proof
  assume "teacherID (info ctx) = Some tid \<and> tid \<noteq> []"
  then show ?thesis
    using sock by (simp add: emitReadMessages_def truthy_def sendReadMessages_connected)
next
  assume a: "\<not> truthy (teacherID (info ctx)) \<and> getInfo ctx = Some st
            \<and> teacherID st = Some tid \<and> tid \<noteq> []"
  have "socketRef (console_log y (console_log x s)) \<noteq> None" for x y
    using sock by (simp add: console_log_def)
  then show ?thesis
    using a
    by (simp add: emitReadMessages_def truthy_def sendReadMessages_connected Let_def
        console_log_def)
qed

text \<open>
  Teacher \<open>t1\<close> and three candidates: one of their own, one unread from \<open>t2\<close>, one
  read from \<open>t2\<close>; once with the id in the live info, once with the id only in
  the stored info.
\<close>

theorem emitReadMessages_filters_witness:
  "emitted (emitReadMessages \<lparr>info = sampleInfo (Some ''t1'') None, getInfo = None\<rparr>
      \<lparr>EmitReadMessagesParams.chatId = ''room'',
       unreadMessages = [sampleMessage ''m1'' ''t1'' 1 False, sampleMessage ''m2'' ''t2'' 2 False,
                         sampleMessage ''m3'' ''t2'' 3 True]\<rparr> connected)
   = [ReadMessages \<lparr>ReadMessagesPayload.roomId = ''room'', unreadMessages = [''m2'']\<rparr>]
   \<and> emitted (emitReadMessages
        \<lparr>info = sampleInfo None None, getInfo = Some (sampleInfo (Some ''t1'') None)\<rparr>
      \<lparr>EmitReadMessagesParams.chatId = ''room'',
       unreadMessages = [sampleMessage ''m1'' ''t1'' 1 False, sampleMessage ''m2'' ''t2'' 2 False,
                         sampleMessage ''m3'' ''t2'' 3 True]\<rparr> connected)
   = [ReadMessages \<lparr>ReadMessagesPayload.roomId = ''room'', unreadMessages = [''m2'']\<rparr>]"
  using emitReadMessages_filters [OF connected_facts(1),
      of "\<lparr>info = sampleInfo (Some ''t1'') None, getInfo = None\<rparr>" "''t1''"]
    emitReadMessages_filters [OF connected_facts(1),
      of "\<lparr>info = sampleInfo None None, getInfo = Some (sampleInfo (Some ''t1'') None)\<rparr>"
         "''t1''" "sampleInfo (Some ''t1'') None"]
  by (simp add: connected_facts sampleInfo_def sampleMessage_def sampleUser_def truthy_def)

text \<open>
  Claim C8. For every call of \<open>emitReadMessages\<close> in which neither the live info
  nor the stored info yields a non-empty teacher id, nothing is emitted, an error
  is written to the console, and no state cell changes: the state afterwards is
  the state before with three console lines added, the last one the error.
\<close>

theorem emitReadMessages_without_id:
  assumes "\<not> truthy (teacherID (info ctx))"
    and "\<forall>st. getInfo ctx = Some st \<longrightarrow> \<not> truthy (teacherID st)"
  shows "emitReadMessages ctx p s =
     s\<lparr>console := console s @
         [ConsoleLog [''No teacherID...''], ConsoleLog [''Getting stored info...''],
          ConsoleError [''Sorry! No teacherID! Exiting...'']]\<rparr>
     \<and> emitted (emitReadMessages ctx p s) = emitted s"
  using assms
  by (cases "getInfo ctx")
     (simp_all add: emitReadMessages_def Let_def console_log_def console_error_def truthy_def)

theorem emitReadMessages_without_id_witness:
  "emitted (emitReadMessages \<lparr>info = sampleInfo None None, getInfo = None\<rparr>
      \<lparr>EmitReadMessagesParams.chatId = ''room'',
       unreadMessages = [sampleMessage ''m2'' ''t2'' 2 False]\<rparr> connected) = []
   \<and> emitted (emitReadMessages
        \<lparr>info = sampleInfo (Some []) None, getInfo = Some (sampleInfo None None)\<rparr>
      \<lparr>EmitReadMessagesParams.chatId = ''room'',
       unreadMessages = [sampleMessage ''m2'' ''t2'' 2 False]\<rparr> connected) = []
   \<and> console (emitReadMessages \<lparr>info = sampleInfo None None, getInfo = None\<rparr>
      \<lparr>EmitReadMessagesParams.chatId = ''room'',
       unreadMessages = [sampleMessage ''m2'' ''t2'' 2 False]\<rparr> connected)
     = [ConsoleLog [''No teacherID...''], ConsoleLog [''Getting stored info...''],
          ConsoleError [''Sorry! No teacherID! Exiting...'']]"
  using emitReadMessages_without_id [of "\<lparr>info = sampleInfo None None, getInfo = None\<rparr>"
      "\<lparr>EmitReadMessagesParams.chatId = ''room'',
        unreadMessages = [sampleMessage ''m2'' ''t2'' 2 False]\<rparr>" connected]
    emitReadMessages_without_id [of
      "\<lparr>info = sampleInfo (Some []) None, getInfo = Some (sampleInfo None None)\<rparr>"
      "\<lparr>EmitReadMessagesParams.chatId = ''room'',
        unreadMessages = [sampleMessage ''m2'' ''t2'' 2 False]\<rparr>" connected]
  by (simp add: connected_facts sampleInfo_def truthy_def)

section \<open>Outbound operations without a socket\<close>

lemma emitReadMessages_no_socket_console:
  assumes "socketRef s = None"
  shows "\<exists>pre msg. console (emitReadMessages ctx p s) = console s @ pre @ [ConsoleError msg]"
proof (cases "truthy (teacherID (info ctx))")
  case True
  then have "console (emitReadMessages ctx p s)
      = console s @ [] @ [ConsoleError [''Socket not found'']]"
    using assms by (simp add: emitReadMessages_def sendReadMessages_def console_error_def)
  then show ?thesis by blast
next
  case False
  show ?thesis
  proof (cases "truthy (case getInfo ctx of None \<Rightarrow> None | Some storedInfo \<Rightarrow> teacherID storedInfo)")
    case True
    with False have "console (emitReadMessages ctx p s) =
        console s @ [ConsoleLog [''No teacherID...''], ConsoleLog [''Getting stored info...'']]
          @ [ConsoleError [''Socket not found'']]"
      using assms
      by (simp add: emitReadMessages_def Let_def sendReadMessages_def console_error_def
          console_log_def)
    then show ?thesis by blast
  next
    case unresolved: False
    with False have "console (emitReadMessages ctx p s) =
        console s @ [ConsoleLog [''No teacherID...''], ConsoleLog [''Getting stored info...'']]
          @ [ConsoleError [''Sorry! No teacherID! Exiting...'']]"
      by (simp add: emitReadMessages_def Let_def console_error_def console_log_def)
    then show ?thesis by blast
  qed
qed

text \<open>
  What each outbound operation does when no socket exists. None emits an event
  and each returns a state. \<open>emitReadMessages\<close> writes an error to the console
  and changes no state cell. The other four write nothing to the console, and
  three of them have set their flag before the emission is skipped.
\<close>

theorem emit_without_socket:
  assumes "socketRef s = None"
  shows "emitRegisterUser rp s = s\<lparr>isRegistering := True\<rparr>
    \<and> emitListChats lp s = s\<lparr>areChatsLoading := True, areChatsLoaded := False\<rparr>
    \<and> emitListMessages mp s = s\<lparr>areMessagesLoading := True\<rparr>
    \<and> emitSendMessage sp s = s
    \<and> (emitReadMessages ctx p s)\<lparr>console := console s\<rparr> = s
    \<and> (\<exists>pre msg. console (emitReadMessages ctx p s) = console s @ pre @ [ConsoleError msg])"
proof -
  have 1: "emitRegisterUser rp s = s\<lparr>isRegistering := True\<rparr>"
    using assms by (simp add: emitRegisterUser_def socket_emit_def)
  have 2: "emitListChats lp s = s\<lparr>areChatsLoading := True, areChatsLoaded := False\<rparr>"
    using assms by (simp add: emitListChats_def socket_emit_def)
  have 3: "emitListMessages mp s = s\<lparr>areMessagesLoading := True\<rparr>"
    using assms by (simp add: emitListMessages_def socket_emit_def)
  have 4: "emitSendMessage sp s = s"
    using assms by (simp add: emitSendMessage_def socket_emit_def)
  have 5: "(emitReadMessages ctx p s)\<lparr>console := console s\<rparr> = s"
    using assms
    by (simp add: emitReadMessages_def Let_def sendReadMessages_def console_log_def
        console_error_def)
  from 1 2 3 4 5 emitReadMessages_no_socket_console [OF assms] show ?thesis by blast
qed

theorem emit_without_socket_witness:
  "emitRegisterUser (registerParams (sampleInfo (Some ''t1'') None)) initialState
     = initialState\<lparr>isRegistering := True\<rparr>
   \<and> emitSendMessage \<lparr>EmitSendMessageParams.roomId = ''room'', sender = sampleUser ''t1'',
        message = ''hi'', timestamp = 1\<rparr> initialState = initialState
   \<and> emitted (emitReadMessages \<lparr>info = sampleInfo (Some ''t1'') None, getInfo = None\<rparr>
        \<lparr>EmitReadMessagesParams.chatId = ''room'',
         unreadMessages = [sampleMessage ''m2'' ''t2'' 2 False]\<rparr> initialState) = []"
proof -
  have n: "socketRef initialState = None" by (simp add: initialState_def)
  have "emitted ((emitReadMessages \<lparr>info = sampleInfo (Some ''t1'') None, getInfo = None\<rparr>
        \<lparr>EmitReadMessagesParams.chatId = ''room'',
         unreadMessages = [sampleMessage ''m2'' ''t2'' 2 False]\<rparr> initialState)
           \<lparr>console := console initialState\<rparr>)
       = emitted initialState"
    using emit_without_socket [OF n] by simp
  then have "emitted (emitReadMessages \<lparr>info = sampleInfo (Some ''t1'') None, getInfo = None\<rparr>
        \<lparr>EmitReadMessagesParams.chatId = ''room'',
         unreadMessages = [sampleMessage ''m2'' ''t2'' 2 False]\<rparr> initialState) = []"
    by (simp add: initialState_def)
  then show ?thesis
    using emit_without_socket [OF n] by simp
qed

text \<open>
  Claim C9. An outbound operation invoked when no socket exists should emit
  nothing, log an error and change no state, as \<open>emitReadMessages\<close> does
  (\<open>Socket not found\<close>). Before the socket exists, \<open>emitRegisterUser\<close>,
  \<open>emitListChats\<close>, \<open>emitListMessages\<close> and \<open>emitSendMessage\<close> emit nothing and
  write nothing to the console, and the first three leave their flag set:
  \<open>isRegistering\<close>, \<open>areChatsLoading\<close>, \<open>areMessagesLoading\<close>.
\<close>

theorem emit_without_socket_silent:
  "socketRef initialState = None
   \<and> emitRegisterUser (registerParams (sampleInfo (Some ''t1'') None)) initialState
       = initialState\<lparr>isRegistering := True\<rparr>
   \<and> emitListChats \<lparr>EmitListChatsParams.userId = ''t1''\<rparr> initialState
       = initialState\<lparr>areChatsLoading := True, areChatsLoaded := False\<rparr>
   \<and> emitListMessages \<lparr>EmitListMessagesParams.roomId = ''room'', userId = ''t1''\<rparr> initialState
       = initialState\<lparr>areMessagesLoading := True\<rparr>
   \<and> emitSendMessage \<lparr>EmitSendMessageParams.roomId = ''room'', sender = sampleUser ''t1'',
        message = ''hi'', timestamp = 1\<rparr> initialState = initialState
   \<and> console initialState = [] \<and> emitted initialState = []
   \<and> isRegistering initialState = False
   \<and> areChatsLoading initialState = False
   \<and> areMessagesLoading initialState = False
   \<and> emitReadMessages \<lparr>info = sampleInfo (Some ''t1'') None, getInfo = None\<rparr>
        \<lparr>EmitReadMessagesParams.chatId = ''room'',
         unreadMessages = [sampleMessage ''m2'' ''t2'' 2 False]\<rparr> initialState
       = initialState\<lparr>console := [ConsoleError [''Socket not found'']]\<rparr>"
  by (simp add: emitRegisterUser_def emitListChats_def emitListMessages_def emitSendMessage_def
      emitReadMessages_def sendReadMessages_def console_error_def socket_emit_def
      initialState_def sampleInfo_def truthy_def)

end
